theory Spec2Isabelle
  imports Complex_Main "HOL-Library.AList" "HOL-Library.Char_ord" "HOL-Library.List_Lexorder"
begin

section \<open>Values\<close>

text \<open>
  Monetary amounts are \<^verbatim>\<open>decimal.Decimal\<close> values in the source (the columns are
  \<^verbatim>\<open>Numeric(10, 2)\<close>, which SQLAlchemy delivers as \<^verbatim>\<open>Decimal\<close>). They are modelled
  as exact rationals. Of the decimal context only the rounding mode that
  \<^verbatim>\<open>quantize\<close> and \<^verbatim>\<open>format\<close> use is modelled (the default, \<^verbatim>\<open>ROUND_HALF_EVEN\<close>; the
  source never changes the context); the context precision of 28 significant
  digits is not: sums, products and quotients are exact here. At the concrete
  inputs evaluated below every quotient that reaches a result terminates within
  28 digits, so the values shown are the ones the decimal arithmetic produces.

  Strings are byte strings; a character outside ASCII is written as its UTF-8
  bytes.
\<close>

datatype erro = TypeError | KeyError

text \<open>
  \<^verbatim>\<open>variancia ** 0.5\<close>: the left operand is a \<^verbatim>\<open>Decimal\<close>, the right one a
  \<^verbatim>\<open>float\<close>. \<^verbatim>\<open>Decimal.__pow__\<close> answers \<^verbatim>\<open>NotImplemented\<close> for a float operand
  and so does \<^verbatim>\<open>float.__rpow__\<close> for a Decimal one, hence the interpreter
  raises \<^verbatim>\<open>TypeError\<close> whatever the value of the base.
\<close>

definition decimal_pow_float :: "rat \<Rightarrow> erro + rat" where
  "decimal_pow_float base = Inl TypeError"

text \<open>\<^verbatim>\<open>Decimal.quantize(Decimal("0.01"))\<close> under the default context: the multiple
  of one hundredth nearest to the argument, a tie going to the even neighbour.\<close>

definition round_half_even :: "rat \<Rightarrow> int" where
  "round_half_even x =
     (let f = \<lfloor>x\<rfloor>; r = x - of_int f
      in if r < 1 / 2 then f
         else if 1 / 2 < r then f + 1
         else if even f then f else f + 1)"

definition quantize :: "rat \<Rightarrow> rat" where
  "quantize x = of_int (round_half_even (x * 100)) / 100"

section \<open>Calendar\<close>

text \<open>
  \<^verbatim>\<open>datetime.date\<close> and \<^verbatim>\<open>datetime.datetime\<close>. Of the time of day only its offset
  from midnight in microseconds is kept. \<open>toordinal\<close> is the proleptic Gregorian
  day number of the \<^verbatim>\<open>datetime\<close> module.
\<close>

record date =
  year :: int
  month :: int
  day :: int

record datetime = date +
  micros :: nat

definition is_leap :: "int \<Rightarrow> bool" where
  "is_leap y \<longleftrightarrow> y mod 4 = 0 \<and> (y mod 100 \<noteq> 0 \<or> y mod 400 = 0)"

definition days_in_month :: "int \<Rightarrow> int \<Rightarrow> int" where
  "days_in_month y m =
     (if m = 2 then (if is_leap y then 29 else 28)
      else if m = 4 \<or> m = 6 \<or> m = 9 \<or> m = 11 then 30 else 31)"

definition days_before_year :: "int \<Rightarrow> int" where
  "days_before_year y = (y - 1) * 365 + (y - 1) div 4 - (y - 1) div 100 + (y - 1) div 400"

definition days_before_month :: "int \<Rightarrow> int \<Rightarrow> int" where
  "days_before_month y m = sum_list (map (days_in_month y) [1..m - 1])"

definition toordinal :: "'a date_scheme \<Rightarrow> int" where
  "toordinal d = days_before_year (year d) + days_before_month (year d) (month d) + day d"


definition datetime_less :: "datetime \<Rightarrow> datetime \<Rightarrow> bool" where
  "datetime_less a b \<longleftrightarrow>
     toordinal a < toordinal b \<or> (toordinal a = toordinal b \<and> micros a < micros b)"

section \<open>Tables (\<^verbatim>\<open>app/models/database_models.py\<close>)\<close>

text \<open>
  A table is the list of its rows, in the order in which the database returns
  them to a query without \<^verbatim>\<open>ORDER BY\<close>. Only the columns read by the modelled
  code are kept.
\<close>

record transacao =
  ID_USUARIO :: string
  ID_CATEGORIA :: string
  VALOR :: rat
  DATA_TRANSACAO :: date
  TIPO :: string

record orcamento =
  ID_ORCAMENTO :: string
  ID_USUARIO :: string
  ID_CATEGORIA :: string
  MES_REFERENCIA :: int
  ANO_REFERENCIA :: int
  LIMITE_TOTAL :: rat

record categoria =
  ID_CATEGORIA :: string
  NOME :: string

record previsao_ia =
  ID_PREVISAO :: string
  ID_USUARIO :: string
  DATA_GERACAO :: datetime
  VALOR_PROJETADO :: rat
  INDICE_RISCO :: string
  MENSAGEM_INSIGHT :: string
  MES_ALVO :: int
  ANO_ALVO :: int

record db =
  transacoes :: "transacao list"
  orcamentos :: "orcamento list"
  categorias :: "categoria list"
  previsoes :: "previsao_ia list"

section \<open>Repositories\<close>

subsection \<open>\<^verbatim>\<open>TransacaoRepository\<close>\<close>

record totais =
  total_entradas :: rat
  total_saidas :: rat
  saldo :: rat

definition get_totais_por_tipo :: "db \<Rightarrow> string \<Rightarrow> int \<Rightarrow> int \<Rightarrow> totais" where
  "get_totais_por_tipo d usuario_id mes ano =
     (let filtro = (\<lambda>t. transacao.ID_USUARIO t = usuario_id \<and>
                         month (DATA_TRANSACAO t) = mes \<and> year (DATA_TRANSACAO t) = ano);
          entradas = sum_list (map VALOR (filter (\<lambda>t. filtro t \<and> TIPO t = ''ENTRADA'') (transacoes d)));
          saidas = sum_list (map VALOR (filter (\<lambda>t. filtro t \<and> TIPO t = ''SAIDA'') (transacoes d)))
      in \<lparr>total_entradas = entradas, total_saidas = saidas, saldo = entradas - saidas\<rparr>)"

definition get_gasto_por_categoria :: "db \<Rightarrow> string \<Rightarrow> string \<Rightarrow> int \<Rightarrow> int \<Rightarrow> rat" where
  "get_gasto_por_categoria d usuario_id categoria_id mes ano =
     sum_list (map VALOR (filter
       (\<lambda>t. transacao.ID_USUARIO t = usuario_id \<and> transacao.ID_CATEGORIA t = categoria_id \<and>
            TIPO t = ''SAIDA'' \<and> month (DATA_TRANSACAO t) = mes \<and> year (DATA_TRANSACAO t) = ano)
       (transacoes d)))"

text \<open>
  \<^verbatim>\<open>data_limite = datetime.now() - timedelta(days=meses_anteriores * 30)\<close>; the
  \<^verbatim>\<open>Date\<close> column is compared with it as the midnight of its day. The rows come
  back by ascending date; rows of one date keep their table order.
\<close>

definition get_historico_para_ia :: "db \<Rightarrow> datetime \<Rightarrow> string \<Rightarrow> int \<Rightarrow> transacao list" where
  "get_historico_para_ia d now usuario_id meses_anteriores =
     (let limite = toordinal now - meses_anteriores * 30
      in sort_key (\<lambda>t. toordinal (DATA_TRANSACAO t))
           (filter (\<lambda>t. transacao.ID_USUARIO t = usuario_id \<and>
                        (limite < toordinal (DATA_TRANSACAO t) \<or>
                         (limite = toordinal (DATA_TRANSACAO t) \<and> micros now = 0)))
              (transacoes d)))"

section \<open>\<^verbatim>\<open>IAAnalysisService\<close>: historical statistics\<close>

record estatisticas =
  media_gastos_mes :: rat
  desvio_padrao :: rat
  tendencia :: string
  total_historico :: rat

text \<open>
  \<^verbatim>\<open>gastos_por_mes\<close> is a dict, which keeps its keys in the order of their first
  insertion: an association list that \<open>AList.update\<close> extends at the end and
  overwrites in place. The key \<^verbatim>\<open>f"{year}-{month}"\<close> determines the pair (year,
  month) and is modelled by it.
\<close>

definition dict_get :: "('k \<times> 'v) list \<Rightarrow> 'k \<Rightarrow> 'v \<Rightarrow> 'v" where
  "dict_get m k dflt = (case map_of m k of None \<Rightarrow> dflt | Some v \<Rightarrow> v)"

fun agrupar :: "transacao list \<Rightarrow> ((int \<times> int) \<times> rat) list \<Rightarrow> ((int \<times> int) \<times> rat) list" where
  "agrupar [] gastos_por_mes = gastos_por_mes"
| "agrupar (t # historico) gastos_por_mes =
     (if TIPO t = ''SAIDA''
      then (let mes_key = (year (DATA_TRANSACAO t), month (DATA_TRANSACAO t))
            in agrupar historico
                 (AList.update mes_key (dict_get gastos_por_mes mes_key 0 + VALOR t) gastos_por_mes))
      else agrupar historico gastos_por_mes)"

text \<open>Lines 126 to 133: the trend of the last three monthly totals.\<close>

definition detectar_tendencia :: "rat list \<Rightarrow> string" where
  "detectar_tendencia valores =
     (if length valores \<ge> 3
      then (let ultimos_3 = drop (length valores - 3) valores
            in if last ultimos_3 > hd ultimos_3 * (11 / 10) then ''crescente''
               else if last ultimos_3 < hd ultimos_3 * (9 / 10) then ''decrescente''
               else ''estavel'')
      else ''estavel'')"

definition calcular_estatisticas_historicas :: "transacao list \<Rightarrow> erro + estatisticas" where
  "calcular_estatisticas_historicas historico =
     (if historico = []
      then Inr \<lparr>media_gastos_mes = 0, desvio_padrao = 0, tendencia = ''estavel'', total_historico = 0\<rparr>
      else
        (let gastos_por_mes = agrupar historico [];
             valores = map snd gastos_por_mes;
             media = (if valores \<noteq> [] then sum_list valores / of_nat (length valores) else 0)
         in case (if length valores > 1
                  then (let variancia = sum_list (map (\<lambda>v. (v - media)\<^sup>2) valores) / of_nat (length valores)
                        in decimal_pow_float variancia)
                  else Inr 0) of
              Inl e \<Rightarrow> Inl e
            | Inr desvio \<Rightarrow>
                Inr \<lparr>media_gastos_mes = media, desvio_padrao = desvio,
                     tendencia = detectar_tendencia valores, total_historico = sum_list valores\<rparr>))"

section \<open>\<^verbatim>\<open>IAAnalysisService\<close>: projection\<close>

text \<open>
  \<^verbatim>\<open>datetime.now()\<close> is an argument. \<^verbatim>\<open>dias_no_mes\<close> is the day of the last day of
  the month of \<open>now\<close> (the first day of the next month less one day) for the
  months before December, and the constant 31 in December.
\<close>

definition projetar_gasto_mes :: "db \<Rightarrow> datetime \<Rightarrow> string \<Rightarrow> estatisticas \<Rightarrow> rat" where
  "projetar_gasto_mes d now usuario_id est =
     (let totais_mes = get_totais_por_tipo d usuario_id (month now) (year now);
          gasto_atual_mes = total_saidas totais_mes;
          dias_decorridos = day now;
          dias_no_mes = (if month now < 12 then days_in_month (year now) (month now) else 31);
          projecao_base =
            (if dias_decorridos > 0
             then (let media_diaria = gasto_atual_mes / of_int dias_decorridos
                   in media_diaria * of_int dias_no_mes)
             else media_gastos_mes est);
          projecao_final =
            (if tendencia est = ''crescente'' then projecao_base * (11 / 10)
             else if tendencia est = ''decrescente'' then projecao_base * (9 / 10)
             else projecao_base)
      in quantize projecao_final)"

section \<open>\<^verbatim>\<open>OrcamentoRepository\<close>\<close>

definition find_all_by_mes_ano :: "db \<Rightarrow> string \<Rightarrow> int \<Rightarrow> int \<Rightarrow> orcamento list" where
  "find_all_by_mes_ano d usuario_id mes ano =
     filter (\<lambda>orc. orcamento.ID_USUARIO orc = usuario_id \<and> MES_REFERENCIA orc = mes \<and>
                    ANO_REFERENCIA orc = ano)
       (orcamentos d)"

definition find_all_ativos :: "db \<Rightarrow> datetime \<Rightarrow> string \<Rightarrow> orcamento list" where
  "find_all_ativos d now usuario_id = find_all_by_mes_ano d usuario_id (month now) (year now)"

section \<open>\<^verbatim>\<open>IAAnalysisService\<close>: risk index\<close>

definition calcular_indice_risco :: "db \<Rightarrow> datetime \<Rightarrow> string \<Rightarrow> rat \<Rightarrow> estatisticas \<Rightarrow> string" where
  "calcular_indice_risco d now usuario_id valor_projetado est =
     (let orcs = find_all_ativos d now usuario_id
      in if orcs = [] then ''AMARELO''
         else
           (let limite_total = sum_list (map LIMITE_TOTAL orcs);
                percentual_projetado =
                  (if limite_total > 0 then valor_projetado / limite_total * 100 else 0);
                totais = get_totais_por_tipo d usuario_id (month now) (year now);
                gasto_atual = total_saidas totais;
                percentual_atual =
                  (if limite_total > 0 then gasto_atual / limite_total * 100 else 0)
            in if percentual_projetado > 90 then ''VERMELHO''
               else if percentual_atual > 70 \<and> day now < 20 then ''VERMELHO''
               else if percentual_projetado > 70 then ''AMARELO''
               else if tendencia est = ''crescente'' \<and> percentual_atual > 50 then ''AMARELO''
               else ''VERDE''))"

section \<open>\<^verbatim>\<open>IAAnalysisService\<close>: insight message\<close>

text \<open>\<^verbatim>\<open>f"{valor_projetado:.2f}"\<close>: the value rounded to two places (half even),
  written with its sign, its integer digits, a point and two digits.\<close>

definition digit_char :: "nat \<Rightarrow> char" where
  "digit_char n = ''0123456789'' ! n"

function str_nat :: "nat \<Rightarrow> string" where
  "str_nat n = (if n < 10 then [digit_char n] else str_nat (n div 10) @ [digit_char (n mod 10)])"
  by pat_completeness auto
termination
  by (relation "measure id") auto

declare str_nat.simps [simp del]

definition format_2f :: "rat \<Rightarrow> string" where
  "format_2f x =
     (let a = nat \<bar>round_half_even (x * 100)\<bar>
      in (if x < 0 then ''-'' else []) @ str_nat (a div 100) @ ''.'' @
         [digit_char (a mod 100 div 10), digit_char (a mod 10)])"

definition mensagens :: "rat \<Rightarrow> (string \<times> string list) list" where
  "mensagens valor_projetado =
     [(''VERDE'',
       [[CHR 0xC3, CHR 0x93] @ ''timo trabalho! Seu gasto projetado '' @ [CHR 0xC3, CHR 0xA9] @
          '' de R$ '' @ format_2f valor_projetado @ ''. Voc'' @ [CHR 0xC3, CHR 0xAA] @ '' est'' @
          [CHR 0xC3, CHR 0xA1] @ '' no controle!'',
        ''Parab'' @ [CHR 0xC3, CHR 0xA9] @ ''ns! Suas finan'' @ [CHR 0xC3, CHR 0xA7] @ ''as est'' @
          [CHR 0xC3, CHR 0xA3] @ ''o saud'' @ [CHR 0xC3, CHR 0xA1] @ ''veis. Continue assim! '' @
          [CHR 0xF0, CHR 0x9F, CHR 0x92, CHR 0x9A],
        ''Voc'' @ [CHR 0xC3, CHR 0xAA] @ '' est'' @ [CHR 0xC3, CHR 0xA1] @
          '' indo muito bem! Gasto projetado: R$ '' @ format_2f valor_projetado @
          ''. Mantenha o ritmo!'']),
      (''AMARELO'',
       [''Aten'' @ [CHR 0xC3, CHR 0xA7, CHR 0xC3, CHR 0xA3] @ ''o: Gasto projetado de R$ '' @
          format_2f valor_projetado @ ''. Considere revisar gastos n'' @ [CHR 0xC3, CHR 0xA3] @
          ''o essenciais.'',
        ''Seus gastos est'' @ [CHR 0xC3, CHR 0xA3] @
          ''o aumentando. Que tal revisar algumas categorias? '' @
          [CHR 0xF0, CHR 0x9F, CHR 0x92, CHR 0x9B],
        ''Voc'' @ [CHR 0xC3, CHR 0xAA] @ '' est'' @ [CHR 0xC3, CHR 0xA1] @
          '' no limite! Gasto projetado: R$ '' @ format_2f valor_projetado @ ''. Planeje os pr'' @
          [CHR 0xC3, CHR 0xB3] @ ''ximos dias com cuidado.'']),
      (''VERMELHO'',
       [''Alerta! Gasto projetado de R$ '' @ format_2f valor_projetado @ '' pode exceder seu or'' @
          [CHR 0xC3, CHR 0xA7] @ ''amento. Priorize o essencial! '' @
          [CHR 0xF0, CHR 0x9F, CHR 0x9A, CHR 0xA8],
        ''Cuidado! Voc'' @ [CHR 0xC3, CHR 0xAA] @ '' est'' @ [CHR 0xC3, CHR 0xA1] @ '' pr'' @
          [CHR 0xC3, CHR 0xB3] @ ''ximo do limite. Evite gastos n'' @ [CHR 0xC3, CHR 0xA3] @
          ''o essenciais nos pr'' @ [CHR 0xC3, CHR 0xB3] @ ''ximos dias.'',
        ''Seus gastos est'' @ [CHR 0xC3, CHR 0xA3] @
          ''o acima do planejado. Vamos ajustar juntos? Revise suas prioridades. '' @
          [CHR 0xE2, CHR 0x9D, CHR 0xA4, CHR 0xEF, CHR 0xB8, CHR 0x8F]])]"

definition alerta_tendencia :: string where
  "alerta_tendencia =
     '' Seus gastos t'' @ [CHR 0xC3, CHR 0xAA] @ ''m aumentado nos '' @ [CHR 0xC3, CHR 0xBA] @
     ''ltimos meses.''"

text \<open>\<^verbatim>\<open>mensagens[indice_risco]\<close> raises \<^verbatim>\<open>KeyError\<close> for a key the dict lacks.\<close>

definition gerar_mensagem_insight :: "string \<Rightarrow> rat \<Rightarrow> estatisticas \<Rightarrow> erro + string" where
  "gerar_mensagem_insight indice_risco valor_projetado est =
     (case map_of (mensagens valor_projetado) indice_risco of
        None \<Rightarrow> Inl KeyError
      | Some mensagens_disponiveis \<Rightarrow>
          if tendencia est = ''crescente'' \<and> indice_risco \<noteq> ''VERDE''
          then Inr (mensagens_disponiveis ! 0 @ alerta_tendencia)
          else Inr (mensagens_disponiveis ! 0))"

section \<open>\<^verbatim>\<open>PrevisaoIARepository\<close>\<close>

text \<open>
  The class lives in \<^verbatim>\<open>previsao_ia_repositorio.py\<close>; the service and the package
  import it from \<^verbatim>\<open>previsao_ia_repository\<close>. The model takes the class as it is
  written.

  What a call draws from its surroundings: the clock (the application's
  \<^verbatim>\<open>datetime.now()\<close> and the server default of \<^verbatim>\<open>DATA_GERACAO\<close>, taken as one
  reading per request) and the fresh \<^verbatim>\<open>uuid4\<close> key of a new row.
\<close>

record ambiente =
  agora :: datetime
  novo_id :: string

definition create :: "db \<Rightarrow> ambiente \<Rightarrow> string \<Rightarrow> rat \<Rightarrow> string \<Rightarrow> string \<Rightarrow> int \<Rightarrow> int
    \<Rightarrow> previsao_ia \<times> db" where
  "create d amb usuario_id valor_projetado indice_risco mensagem_insight mes_alvo ano_alvo =
     (let previsao = \<lparr>ID_PREVISAO = novo_id amb, ID_USUARIO = usuario_id,
                       DATA_GERACAO = agora amb, VALOR_PROJETADO = valor_projetado,
                       INDICE_RISCO = indice_risco, MENSAGEM_INSIGHT = mensagem_insight,
                       MES_ALVO = mes_alvo, ANO_ALVO = ano_alvo\<rparr>
      in (previsao, d\<lparr>previsoes := previsoes d @ [previsao]\<rparr>))"

text \<open>\<^verbatim>\<open>order_by(DATA_GERACAO.desc()).first()\<close>: a row of the latest generation
  time; among rows of one time, the earliest in table order.\<close>

fun mais_recente :: "previsao_ia list \<Rightarrow> previsao_ia option" where
  "mais_recente [] = None"
| "mais_recente (p # ps) =
     (case mais_recente ps of
        None \<Rightarrow> Some p
      | Some q \<Rightarrow> if datetime_less (DATA_GERACAO p) (DATA_GERACAO q) then Some q else Some p)"

definition find_mais_recente_por_usuario :: "db \<Rightarrow> string \<Rightarrow> previsao_ia option" where
  "find_mais_recente_por_usuario d usuario_id =
     mais_recente (filter (\<lambda>p. previsao_ia.ID_USUARIO p = usuario_id) (previsoes d))"

section \<open>\<^verbatim>\<open>IAAnalysisService\<close>: generation and retrieval\<close>

definition gerar_previsao :: "db \<Rightarrow> ambiente \<Rightarrow> string \<Rightarrow> erro + previsao_ia \<times> db" where
  "gerar_previsao d amb usuario_id =
     (let now = agora amb;
          historico = get_historico_para_ia d now usuario_id 6
      in case calcular_estatisticas_historicas historico of
           Inl e \<Rightarrow> Inl e
         | Inr est \<Rightarrow>
             (let valor_projetado = projetar_gasto_mes d now usuario_id est;
                  indice_risco = calcular_indice_risco d now usuario_id valor_projetado est
              in case gerar_mensagem_insight indice_risco valor_projetado est of
                   Inl e \<Rightarrow> Inl e
                 | Inr mensagem_insight \<Rightarrow>
                     Inr (create d amb usuario_id valor_projetado indice_risco mensagem_insight
                            (month now) (year now))))"

definition get_ultima_previsao :: "db \<Rightarrow> ambiente \<Rightarrow> string \<Rightarrow> erro + previsao_ia \<times> db" where
  "get_ultima_previsao d amb usuario_id =
     (case find_mais_recente_por_usuario d usuario_id of
        None \<Rightarrow> gerar_previsao d amb usuario_id
      | Some previsao \<Rightarrow> Inr (previsao, d))"

text \<open>The route \<^verbatim>\<open>POST /dashboard/refresh-prediction\<close>; its response copies the
  fields of the prediction it generated.\<close>

definition refresh_prediction :: "db \<Rightarrow> ambiente \<Rightarrow> string \<Rightarrow> erro + previsao_ia \<times> db" where
  "refresh_prediction d amb current_user = gerar_previsao d amb current_user"

section \<open>\<^verbatim>\<open>CategoriaRepository\<close> and \<^verbatim>\<open>OrcamentoService\<close>\<close>

definition find_by_id :: "db \<Rightarrow> string \<Rightarrow> categoria option" where
  "find_by_id d categoria_id =
     (case filter (\<lambda>c. categoria.ID_CATEGORIA c = categoria_id) (categorias d) of
        [] \<Rightarrow> None
      | c # _ \<Rightarrow> Some c)"

record orcamento_status =
  orcamento :: orcamento
  categoria_nome :: string
  gasto_atual :: rat
  percentual_uso :: rat
  saldo_disponivel :: rat

text \<open>\<^verbatim>\<open>mes or now.month\<close>: the default replaces \<^verbatim>\<open>None\<close> and 0 alike.\<close>

definition py_or :: "int option \<Rightarrow> int \<Rightarrow> int" where
  "py_or x dflt = (case x of None \<Rightarrow> dflt | Some v \<Rightarrow> if v = 0 then dflt else v)"

definition status :: "db \<Rightarrow> string \<Rightarrow> int \<Rightarrow> int \<Rightarrow> orcamento \<Rightarrow> orcamento_status" where
  "status d usuario_id mes ano orc =
     (let gasto = get_gasto_por_categoria d usuario_id (orcamento.ID_CATEGORIA orc) mes ano;
          percentual = (if LIMITE_TOTAL orc > 0 then gasto / LIMITE_TOTAL orc * 100 else 0);
          saldo_disp = LIMITE_TOTAL orc - gasto;
          cat = find_by_id d (orcamento.ID_CATEGORIA orc)
      in \<lparr>orcamento = orc,
          categoria_nome = (case cat of Some c \<Rightarrow> NOME c | None \<Rightarrow> ''Desconhecida''),
          gasto_atual = gasto, percentual_uso = percentual, saldo_disponivel = saldo_disp\<rparr>)"

definition get_orcamentos_com_status ::
    "db \<Rightarrow> datetime \<Rightarrow> string \<Rightarrow> int option \<Rightarrow> int option \<Rightarrow> orcamento_status list" where
  "get_orcamentos_com_status d now usuario_id mes ano =
     (let mes' = (if mes = None \<or> ano = None then py_or mes (month now) else the mes);
          ano' = (if mes = None \<or> ano = None then py_or ano (year now) else the ano)
      in map (status d usuario_id mes' ano') (find_all_by_mes_ano d usuario_id mes' ano'))"

section \<open>The specification's reading\<close>

text \<open>
  The specification names the risk tiers low, medium and high, coded
  \<^verbatim>\<open>VERDE\<close>, \<^verbatim>\<open>AMARELO\<close> and \<^verbatim>\<open>VERMELHO\<close>, and the trends rising, falling and
  stable, which the code writes \<^verbatim>\<open>crescente\<close>, \<^verbatim>\<open>decrescente\<close> and \<^verbatim>\<open>estavel\<close>.
  The code treats every trend string other than the first two as it treats
  \<^verbatim>\<open>estavel\<close>.
\<close>

datatype risk_tier = Low | Medium | High

fun tier_code :: "risk_tier \<Rightarrow> string" where
  "tier_code Low = ''VERDE''"
| "tier_code Medium = ''AMARELO''"
| "tier_code High = ''VERMELHO''"

datatype trend = Rising | Falling | Stable

definition trend_of :: "string \<Rightarrow> trend" where
  "trend_of s = (if s = ''crescente'' then Rising else if s = ''decrescente'' then Falling else Stable)"

text \<open>Section 4.3 of the specification, rule by rule.\<close>

definition spec_pct :: "rat \<Rightarrow> rat \<Rightarrow> rat" where
  "spec_pct amount totalLimit = (if totalLimit \<le> 0 then 0 else amount / totalLimit * 100)"

definition spec_risk_tier :: "bool \<Rightarrow> rat \<Rightarrow> rat \<Rightarrow> rat \<Rightarrow> int \<Rightarrow> trend \<Rightarrow> risk_tier" where
  "spec_risk_tier noBudgets projected totalLimit actual dayOfMonth tr =
     (if noBudgets then Medium
      else if spec_pct projected totalLimit > 90 then High
      else if spec_pct actual totalLimit > 70 \<and> dayOfMonth < 20 then High
      else if spec_pct projected totalLimit > 70 then Medium
      else if tr = Rising \<and> spec_pct actual totalLimit > 50 then Medium
      else Low)"

text \<open>Section 4.2 of the specification, with the rounding of the last step as a
  parameter: \<open>round_half_up\<close> is the rounding the specification names.\<close>

definition round_half_up :: "rat \<Rightarrow> int" where
  "round_half_up x = (if 0 \<le> x then \<lfloor>x + 1 / 2\<rfloor> else - \<lfloor>- x + 1 / 2\<rfloor>)"




text \<open>Section 4.5 of the specification: the order it asks of the views, by
  category name and then by budget identifier.\<close>

definition spec_view_order :: "orcamento_status \<Rightarrow> orcamento_status \<Rightarrow> bool" where
  "spec_view_order v1 v2 \<longleftrightarrow>
     categoria_nome v1 < categoria_nome v2 \<or>
     (categoria_nome v1 = categoria_nome v2 \<and>
      ID_ORCAMENTO (orcamento v1) \<le> ID_ORCAMENTO (orcamento v2))"

section \<open>Sample data\<close>

definition lancamento :: "int \<Rightarrow> int \<Rightarrow> int \<Rightarrow> rat \<Rightarrow> string \<Rightarrow> transacao" where
  "lancamento y m dd v tp =
     \<lparr>transacao.ID_USUARIO = ''u1'', transacao.ID_CATEGORIA = ''c1'', VALOR = v,
      DATA_TRANSACAO = \<lparr>year = y, month = m, day = dd\<rparr>, TIPO = tp\<rparr>"

definition historico_dois_meses :: "transacao list" where
  "historico_dois_meses = [lancamento 2025 1 10 100 ''SAIDA'', lancamento 2025 2 10 200 ''SAIDA'']"

definition historico_totais :: "rat \<Rightarrow> rat \<Rightarrow> rat \<Rightarrow> transacao list" where
  "historico_totais a b c =
     [lancamento 2025 1 10 a ''SAIDA'', lancamento 2025 2 10 b ''SAIDA'',
      lancamento 2025 3 10 c ''SAIDA'']"

definition historico_um_mes :: "transacao list" where
  "historico_um_mes =
     [lancamento 2025 3 1 2500 ''ENTRADA'', lancamento 2025 3 5 40 ''SAIDA'',
      lancamento 2025 3 20 60 ''SAIDA'']"

definition quatro_de_abril :: datetime where
  "quatro_de_abril = \<lparr>year = 2025, month = 4, day = 4, micros = 0\<rparr>"

definition vinte_e_cinco_de_abril :: datetime where
  "vinte_e_cinco_de_abril = \<lparr>year = 2025, month = 4, day = 25, micros = 0\<rparr>"

definition orcamentos_abril :: "orcamento list" where
  "orcamentos_abril =
     [\<lparr>ID_ORCAMENTO = ''o1'', orcamento.ID_USUARIO = ''u1'', orcamento.ID_CATEGORIA = ''c2'',
       MES_REFERENCIA = 4, ANO_REFERENCIA = 2025, LIMITE_TOTAL = 150\<rparr>,
      \<lparr>ID_ORCAMENTO = ''o2'', orcamento.ID_USUARIO = ''u1'', orcamento.ID_CATEGORIA = ''c1'',
       MES_REFERENCIA = 4, ANO_REFERENCIA = 2025, LIMITE_TOTAL = 50\<rparr>]"

definition categorias_abril :: "categoria list" where
  "categorias_abril =
     [\<lparr>ID_CATEGORIA = ''c1'', NOME = ''Alimentacao''\<rparr>,
      \<lparr>ID_CATEGORIA = ''c2'', NOME = ''Transporte''\<rparr>]"

text \<open>One outflow of 0.03 on 2 April 2025 and two budgets for April.\<close>

definition db_abril :: db where
  "db_abril =
     \<lparr>transacoes = [lancamento 2025 4 2 (3 / 100) ''SAIDA''],
      orcamentos = orcamentos_abril, categorias = categorias_abril, previsoes = []\<rparr>"

text \<open>Outflows in February and in March 2025, and no stored prediction.\<close>

definition db_dois_meses :: db where
  "db_dois_meses =
     \<lparr>transacoes = [lancamento 2025 2 10 100 ''SAIDA'', lancamento 2025 3 10 200 ''SAIDA''],
      orcamentos = orcamentos_abril, categorias = categorias_abril, previsoes = []\<rparr>"

definition estavel_zero :: estatisticas where
  "estavel_zero =
     \<lparr>media_gastos_mes = 0, desvio_padrao = 0, tendencia = ''estavel'', total_historico = 0\<rparr>"

definition ambiente_abril :: ambiente where
  "ambiente_abril = \<lparr>agora = quatro_de_abril, novo_id = ''p1''\<rparr>"

text \<open>The prediction the engine generates from \<open>db_abril\<close> on 4 April 2025.\<close>

definition previsao_abril :: previsao_ia where
  "previsao_abril =
     \<lparr>ID_PREVISAO = ''p1'', ID_USUARIO = ''u1'', DATA_GERACAO = quatro_de_abril,
      VALOR_PROJETADO = 22 / 100, INDICE_RISCO = ''VERDE'',
      MENSAGEM_INSIGHT =
        [CHR 0xC3, CHR 0x93] @ ''timo trabalho! Seu gasto projetado '' @ [CHR 0xC3, CHR 0xA9] @
        '' de R$ 0.22. Voc'' @ [CHR 0xC3, CHR 0xAA] @ '' est'' @ [CHR 0xC3, CHR 0xA1] @
        '' no controle!'',
      MES_ALVO = 4, ANO_ALVO = 2025\<rparr>"

section \<open>Evaluation lemmas\<close>

lemma floor_rat_numeral_div [simp]:
  "\<lfloor>numeral a / numeral b :: rat\<rfloor> = numeral a div numeral b"
  by (metis floor_divide_of_int_eq of_int_numeral)

lemmas sample_defs =
  lancamento_def historico_dois_meses_def historico_totais_def historico_um_mes_def
  quatro_de_abril_def vinte_e_cinco_de_abril_def orcamentos_abril_def categorias_abril_def
  db_abril_def db_dois_meses_def estavel_zero_def ambiente_abril_def previsao_abril_def


section \<open>Historical statistics\<close>

text \<open>Only the outflows of a history reach the monthly totals.\<close>

lemma agrupar_filter:
  "agrupar h acc = agrupar (filter (\<lambda>t. TIPO t = ''SAIDA'') h) acc"
  by (induction h arbitrary: acc) (simp_all add: Let_def)

lemma estatisticas_sem_saidas:
  assumes "filter (\<lambda>t. TIPO t = ''SAIDA'') h = []"
  shows "calcular_estatisticas_historicas h = calcular_estatisticas_historicas []"
proof -
  have "agrupar h [] = []"
    using agrupar_filter[of h "[]"] assms by simp
  then show ?thesis
    by (simp add: calcular_estatisticas_historicas_def detectar_tendencia_def)
qed

lemma estatisticas_filter:
  "calcular_estatisticas_historicas h =
   calcular_estatisticas_historicas (filter (\<lambda>t. TIPO t = ''SAIDA'') h)"
proof (cases "filter (\<lambda>t. TIPO t = ''SAIDA'') h = []")
  case True
  then show ?thesis
    using estatisticas_sem_saidas[OF True] by simp
next
  case False
  then have "h \<noteq> []" by auto
  with False show ?thesis
    using agrupar_filter[of h "[]"] by (simp add: calcular_estatisticas_historicas_def)
qed

lemma filter_saida_nao_entrada:
  "filter (\<lambda>t. TIPO t = ''SAIDA'') (filter (\<lambda>t. TIPO t \<noteq> ''ENTRADA'') h) =
   filter (\<lambda>t. TIPO t = ''SAIDA'') h"
  by (induction h) auto

text \<open>
  What the calculator returns, by the number of months that have outflows: with
  at most one month the deviation is 0 and the trend \<^verbatim>\<open>estavel\<close>; with two or
  more the square root of line 122 raises.
\<close>

lemma estatisticas_ate_um_mes:
  assumes "length (agrupar h []) \<le> 1"
  shows "\<exists>est. calcular_estatisticas_historicas h = Inr est \<and> desvio_padrao est = 0 \<and>
               tendencia est = ''estavel''"
  using assms
  by (auto simp add: calcular_estatisticas_historicas_def detectar_tendencia_def Let_def)

lemma estatisticas_dois_meses_ou_mais:
  assumes "1 < length (agrupar h [])"
  shows "calcular_estatisticas_historicas h = Inl TypeError"
  using assms
  by (auto simp add: calcular_estatisticas_historicas_def decimal_pow_float_def Let_def)

lemma estatisticas_um_mes_example:
  "calcular_estatisticas_historicas historico_um_mes =
     Inr \<lparr>media_gastos_mes = 100, desvio_padrao = 0, tendencia = ''estavel'',
          total_historico = 100\<rparr>"
  by (simp add: calcular_estatisticas_historicas_def historico_um_mes_def lancamento_def
      dict_get_def detectar_tendencia_def Let_def)

text \<open>
  Claim C2, at a history with outflows of 100 in January and 200 in February
  2025: the claim promises a result with the population standard deviation 50
  and no exception; the calculator raises \<^verbatim>\<open>TypeError\<close>.
\<close>

theorem C2_desvio_padrao_raises:
  "map snd (agrupar historico_dois_meses []) = [100, 200] \<and>
   calcular_estatisticas_historicas historico_dois_meses = Inl TypeError"
  by (simp add: calcular_estatisticas_historicas_def historico_dois_meses_def lancamento_def
      dict_get_def decimal_pow_float_def Let_def)

text \<open>Lines 126 to 133 on their own follow the rule of the specification.\<close>

lemma detectar_tendencia_regra:
  assumes "3 \<le> length valores"
  shows "detectar_tendencia valores =
     (if valores ! (length valores - 3) * (11 / 10) < last valores then ''crescente''
      else if last valores < valores ! (length valores - 3) * (9 / 10) then ''decrescente''
      else ''estavel'')"
proof -
  have "drop (length valores - 3) valores \<noteq> []"
    using assms by simp
  then have "hd (drop (length valores - 3) valores) = valores ! (length valores - 3)"
    and "last (drop (length valores - 3) valores) = last valores"
    using assms by (simp_all add: hd_drop_conv_nth)
  with assms show ?thesis
    by (simp add: detectar_tendencia_def Let_def)
qed

lemma detectar_tendencia_examples:
  "detectar_tendencia [100, 100, 115] = ''crescente'' \<and>
   detectar_tendencia [100, 100, 89] = ''decrescente'' \<and>
   detectar_tendencia [100, 100, 100] = ''estavel'' \<and>
   detectar_tendencia [100, 115] = ''estavel''"
  by (simp add: detectar_tendencia_def Let_def)

text \<open>
  Claim C4, at the histories whose monthly totals are [100, 100, 115],
  [100, 100, 89] and [100, 100, 100]: the claim promises the trends rising,
  falling and stable; the calculator raises \<^verbatim>\<open>TypeError\<close> at line 122, before it
  reaches the trend of lines 126 to 133.
\<close>

theorem C4_tendencia_not_reached:
  "map snd (agrupar (historico_totais 100 100 115) []) = [100, 100, 115] \<and>
   calcular_estatisticas_historicas (historico_totais 100 100 115) = Inl TypeError \<and>
   calcular_estatisticas_historicas (historico_totais 100 100 89) = Inl TypeError \<and>
   calcular_estatisticas_historicas (historico_totais 100 100 100) = Inl TypeError"
  by (simp add: calcular_estatisticas_historicas_def historico_totais_def lancamento_def
      dict_get_def decimal_pow_float_def Let_def)

text \<open>
  Claim C9. Two histories that agree once their inflow entries are removed get
  the same answer from the calculator (the same statistics, or the same
  exception); and a history of inflow entries only gets the all-zero, stable
  statistics of the empty history.
\<close>

theorem C9_inflows_do_not_count:
  "(filter (\<lambda>t. TIPO t \<noteq> ''ENTRADA'') h1 = filter (\<lambda>t. TIPO t \<noteq> ''ENTRADA'') h2 \<longrightarrow>
      calcular_estatisticas_historicas h1 = calcular_estatisticas_historicas h2) \<and>
   ((\<forall>t \<in> set h1. TIPO t = ''ENTRADA'') \<longrightarrow>
      calcular_estatisticas_historicas h1 = calcular_estatisticas_historicas [] \<and>
      calcular_estatisticas_historicas h1 =
        Inr \<lparr>media_gastos_mes = 0, desvio_padrao = 0, tendencia = ''estavel'',
             total_historico = 0\<rparr>)"
proof (intro conjI impI)
  assume eq: "filter (\<lambda>t. TIPO t \<noteq> ''ENTRADA'') h1 = filter (\<lambda>t. TIPO t \<noteq> ''ENTRADA'') h2"
  have "filter (\<lambda>t. TIPO t = ''SAIDA'') h1 = filter (\<lambda>t. TIPO t = ''SAIDA'') h2"
    using filter_saida_nao_entrada[of h1] filter_saida_nao_entrada[of h2] eq by simp
  then show "calcular_estatisticas_historicas h1 = calcular_estatisticas_historicas h2"
    using estatisticas_filter[of h1] estatisticas_filter[of h2] by simp
next
  assume "\<forall>t \<in> set h1. TIPO t = ''ENTRADA''"
  then have "filter (\<lambda>t. TIPO t = ''SAIDA'') h1 = []"
    by (induction h1) auto
  from estatisticas_sem_saidas[OF this]
  show "calcular_estatisticas_historicas h1 = calcular_estatisticas_historicas []"
    and "calcular_estatisticas_historicas h1 =
        Inr \<lparr>media_gastos_mes = 0, desvio_padrao = 0, tendencia = ''estavel'',
             total_historico = 0\<rparr>"
    by (simp_all add: calcular_estatisticas_historicas_def)
qed

text \<open>Witness of C9: a month with one inflow and two outflows against the same
  month without the inflow, and a history that is one inflow.\<close>

theorem C9_inflows_do_not_count_witness:
  "filter (\<lambda>t. TIPO t \<noteq> ''ENTRADA'') historico_um_mes =
     filter (\<lambda>t. TIPO t \<noteq> ''ENTRADA'') (tl historico_um_mes) \<and>
   calcular_estatisticas_historicas (tl historico_um_mes) =
     Inr \<lparr>media_gastos_mes = 100, desvio_padrao = 0, tendencia = ''estavel'',
          total_historico = 100\<rparr> \<and>
   list_all (\<lambda>t. TIPO t = ''ENTRADA'') [hd historico_um_mes] \<and>
   calcular_estatisticas_historicas [hd historico_um_mes] =
     Inr \<lparr>media_gastos_mes = 0, desvio_padrao = 0, tendencia = ''estavel'',
          total_historico = 0\<rparr>"
proof -
  have h1: "filter (\<lambda>t. TIPO t \<noteq> ''ENTRADA'') historico_um_mes =
      filter (\<lambda>t. TIPO t \<noteq> ''ENTRADA'') (tl historico_um_mes)"
    by (simp add: historico_um_mes_def lancamento_def)
  have h2: "\<forall>t \<in> set [hd historico_um_mes]. TIPO t = ''ENTRADA''"
    by (simp add: historico_um_mes_def lancamento_def)
  from C9_inflows_do_not_count[of historico_um_mes "tl historico_um_mes"] h1
  have "calcular_estatisticas_historicas (tl historico_um_mes) =
      calcular_estatisticas_historicas historico_um_mes"
    by simp
  moreover from C9_inflows_do_not_count[of "[hd historico_um_mes]" "[]"] h2
  have "calcular_estatisticas_historicas [hd historico_um_mes] =
     Inr \<lparr>media_gastos_mes = 0, desvio_padrao = 0, tendencia = ''estavel'',
          total_historico = 0\<rparr>"
    by blast
  ultimately show ?thesis
    using h1 h2 estatisticas_um_mes_example by simp
qed

section \<open>Projection\<close>

text \<open>What \<open>quantize\<close> does: the result is within half a hundredth of the
  argument, and a tie goes to the even neighbour, where half-up rounding goes to
  the upper one.\<close>

lemma round_half_even_nearest: "\<bar>x - of_int (round_half_even x)\<bar> \<le> 1 / 2"
proof -
  have "of_int \<lfloor>x\<rfloor> \<le> x" and "x < of_int \<lfloor>x\<rfloor> + 1"
    by linarith+
  then show ?thesis
    by (auto simp add: round_half_even_def Let_def)
qed

lemma round_half_even_tie:
  assumes "x - of_int \<lfloor>x\<rfloor> = 1 / 2"
  shows "even (round_half_even x)"
  using assms by (simp add: round_half_even_def Let_def)

lemma round_half_up_tie:
  assumes "0 \<le> x" and "x - of_int \<lfloor>x\<rfloor> = 1 / 2"
  shows "round_half_up x = \<lfloor>x\<rfloor> + 1"
proof -
  have "x + 1 / 2 = of_int (\<lfloor>x\<rfloor> + 1)"
    using assms(2) by simp
  then have "\<lfloor>x + 1 / 2\<rfloor> = \<lfloor>x\<rfloor> + 1"
    by (metis floor_of_int)
  with assms(1) show ?thesis
    by (simp add: round_half_up_def)
qed

lemma quantize_nearest: "\<bar>x - quantize x\<bar> \<le> 1 / 200"
proof -
  have "\<bar>x * 100 - of_int (round_half_even (x * 100))\<bar> \<le> 1 / 2"
    by (rule round_half_even_nearest)
  then show ?thesis
    by (simp add: quantize_def abs_le_iff field_simps)
qed




section \<open>Risk index\<close>

text \<open>
  Claim C1. The classifier is the ordered rule chain of section 4.3 of the
  specification, read on the budgets of the month of \<open>now\<close>, the sum of their
  limits, the month's outflows, the day of \<open>now\<close> and the trend. In particular,
  when budgets exist and the projected percentage exceeds 90, the index is
  \<^verbatim>\<open>VERMELHO\<close>, whatever the day and the trend.
\<close>

theorem C1_risk_rule_chain:
  "calcular_indice_risco d now u v est =
     tier_code (spec_risk_tier (find_all_ativos d now u = []) v
       (sum_list (map LIMITE_TOTAL (find_all_ativos d now u)))
       (total_saidas (get_totais_por_tipo d u (month now) (year now)))
       (day now) (trend_of (tendencia est))) \<and>
   (find_all_ativos d now u \<noteq> [] \<and>
    90 < spec_pct v (sum_list (map LIMITE_TOTAL (find_all_ativos d now u))) \<longrightarrow>
      calcular_indice_risco d now u v est = ''VERMELHO'')"
proof (intro conjI impI)
  show "calcular_indice_risco d now u v est =
     tier_code (spec_risk_tier (find_all_ativos d now u = []) v
       (sum_list (map LIMITE_TOTAL (find_all_ativos d now u)))
       (total_saidas (get_totais_por_tipo d u (month now) (year now)))
       (day now) (trend_of (tendencia est)))"
    by (simp add: calcular_indice_risco_def spec_risk_tier_def spec_pct_def trend_of_def Let_def)
next
  assume "find_all_ativos d now u \<noteq> [] \<and>
    90 < spec_pct v (sum_list (map LIMITE_TOTAL (find_all_ativos d now u)))"
  then show "calcular_indice_risco d now u v est = ''VERMELHO''"
    by (simp add: calcular_indice_risco_def spec_pct_def Let_def split: if_splits)
qed

text \<open>Witness of C1: budgets of 150 and 50 and a projection of 190, on the 25th
  of the month and with a stable trend.\<close>

theorem C1_risk_rule_chain_witness:
  "find_all_ativos db_abril vinte_e_cinco_de_abril ''u1'' \<noteq> [] \<and>
   90 < spec_pct 190
     (sum_list (map LIMITE_TOTAL (find_all_ativos db_abril vinte_e_cinco_de_abril ''u1''))) \<and>
   calcular_indice_risco db_abril vinte_e_cinco_de_abril ''u1'' 190 estavel_zero = ''VERMELHO''"
proof -
  have h: "find_all_ativos db_abril vinte_e_cinco_de_abril ''u1'' \<noteq> [] \<and>
      90 < spec_pct 190
        (sum_list (map LIMITE_TOTAL (find_all_ativos db_abril vinte_e_cinco_de_abril ''u1'')))"
    by (simp add: find_all_ativos_def find_all_by_mes_ano_def spec_pct_def sample_defs)
  with C1_risk_rule_chain[of db_abril vinte_e_cinco_de_abril "''u1''" 190 estavel_zero]
  show ?thesis by blast
qed

lemma indice_risco_range:
  "calcular_indice_risco d now u v est \<in> {''VERDE'', ''AMARELO'', ''VERMELHO''}"
  by (simp add: calcular_indice_risco_def Let_def)

section \<open>Insight message\<close>






lemma mensagem_insight_total:
  assumes "indice \<in> {''VERDE'', ''AMARELO'', ''VERMELHO''}"
  shows "\<exists>m. gerar_mensagem_insight indice v est = Inr m"
  using assms by (auto simp add: gerar_mensagem_insight_def mensagens_def)

lemma mensagem_insight_KeyError:
  assumes "indice \<notin> {''VERDE'', ''AMARELO'', ''VERMELHO''}"
  shows "gerar_mensagem_insight indice v est = Inl KeyError"
  using assms by (simp add: gerar_mensagem_insight_def mensagens_def)

section \<open>Budget status\<close>




text \<open>
  Claim C6 as stated is false: with the budget of the category Transporte
  stored before the budget of the category Alimentacao, the views come back in
  that order, which is not the order by category name.
\<close>

theorem C6_sorted_counterexample:
  "map categoria_nome
     (get_orcamentos_com_status db_abril quatro_de_abril ''u1'' (Some 4) (Some 2025)) =
     [''Transporte'', ''Alimentacao''] \<and>
   \<not> sorted_wrt spec_view_order
     (get_orcamentos_com_status db_abril quatro_de_abril ''u1'' (Some 4) (Some 2025))"
  by (simp add: get_orcamentos_com_status_def status_def find_all_by_mes_ano_def find_by_id_def
      sample_defs Let_def spec_view_order_def less_char_def less_eq_char_def)

text \<open>
  Claim C6, amended. The views follow the order in which the budget repository
  returns the budgets of the user and period, one view for each budget: the
  budgets of the views, read in order, are the rows of the budget table for that
  user and period in the order of the table. The aggregator sorts nothing.
\<close>

theorem C6_views_in_repository_order:
  "map orcamento (get_orcamentos_com_status d now u (Some mes) (Some ano)) =
     find_all_by_mes_ano d u mes ano \<and>
   find_all_by_mes_ano d u mes ano =
     filter (\<lambda>orc. orcamento.ID_USUARIO orc = u \<and> MES_REFERENCIA orc = mes \<and>
                   ANO_REFERENCIA orc = ano) (orcamentos d)"
proof
  have "map orcamento (map (status d u mes ano) xs) = xs" for xs
    by (induction xs) (simp_all add: status_def Let_def)
  then show "map orcamento (get_orcamentos_com_status d now u (Some mes) (Some ano)) =
     find_all_by_mes_ano d u mes ano"
    by (simp add: get_orcamentos_com_status_def)
next
  show "find_all_by_mes_ano d u mes ano =
     filter (\<lambda>orc. orcamento.ID_USUARIO orc = u \<and> MES_REFERENCIA orc = mes \<and>
                   ANO_REFERENCIA orc = ano) (orcamentos d)"
    by (simp add: find_all_by_mes_ano_def)
qed

text \<open>Without a month or a year the aggregator reads the period of \<open>now\<close>.\<close>

lemma orcamentos_com_status_default:
  "get_orcamentos_com_status d now u None None =
   get_orcamentos_com_status d now u (Some (month now)) (Some (year now))"
  by (simp add: get_orcamentos_com_status_def py_or_def)

section \<open>Generation and retrieval of predictions\<close>

lemma mais_recente_None: "mais_recente ps = None \<longleftrightarrow> ps = []"
  by (induction ps) (auto split: option.splits)

text \<open>The row found is one of the user's rows, and none of them is later.\<close>

lemma mais_recente_Some:
  assumes "mais_recente ps = Some p"
  shows "p \<in> set ps \<and> (\<forall>q \<in> set ps. \<not> datetime_less (DATA_GERACAO p) (DATA_GERACAO q))"
  using assms
proof (induction ps arbitrary: p)
  case Nil
  then show ?case by simp
next
  case (Cons a ps)
  show ?case
  proof (cases "mais_recente ps")
    case None
    then have "ps = []" by (simp add: mais_recente_None)
    with Cons.prems None show ?thesis by (simp add: datetime_less_def)
  next
    case (Some q)
    from Cons.IH[OF Some] have q: "q \<in> set ps"
      and qmax: "\<forall>r \<in> set ps. \<not> datetime_less (DATA_GERACAO q) (DATA_GERACAO r)"
      by simp_all
    show ?thesis
    proof (cases "datetime_less (DATA_GERACAO a) (DATA_GERACAO q)")
      case True
      with Cons.prems Some have "p = q" by simp
      with q qmax True show ?thesis by (auto simp: datetime_less_def)
    next
      case False
      with Cons.prems Some have "p = a" by simp
      with qmax False show ?thesis by (fastforce simp: datetime_less_def)
    qed
  qed
qed

lemma find_mais_recente_Some:
  assumes "find_mais_recente_por_usuario d u = Some p"
  shows "p \<in> set (previsoes d) \<and> previsao_ia.ID_USUARIO p = u \<and>
         (\<forall>q \<in> set (previsoes d). previsao_ia.ID_USUARIO q = u \<longrightarrow>
            \<not> datetime_less (DATA_GERACAO p) (DATA_GERACAO q))"
  using mais_recente_Some[OF assms[unfolded find_mais_recente_por_usuario_def]] by auto

text \<open>With a stored prediction the service returns it and writes nothing.\<close>

lemma get_ultima_previsao_found:
  assumes "find_mais_recente_por_usuario d u = Some p"
  shows "get_ultima_previsao d amb u = Inr (p, d)"
  using assms by (simp add: get_ultima_previsao_def)

lemma get_ultima_previsao_missing:
  assumes "find_mais_recente_por_usuario d u = None"
  shows "get_ultima_previsao d amb u = gerar_previsao d amb u"
  using assms by (simp add: get_ultima_previsao_def)

text \<open>A generation that returns has appended its one prediction to the store
  and changed no other table.\<close>

lemma gerar_previsao_Inr:
  assumes "gerar_previsao d amb u = Inr (p, d')"
  shows "d' = d\<lparr>previsoes := previsoes d @ [p]\<rparr> \<and> previsao_ia.ID_USUARIO p = u \<and>
         DATA_GERACAO p = agora amb \<and> ID_PREVISAO p = novo_id amb"
  using assms
  by (auto simp add: gerar_previsao_def create_def Let_def split: sum.splits)

text \<open>A generation fails exactly when the statistics do.\<close>

lemma gerar_previsao_Inl:
  "gerar_previsao d amb u = Inl e \<longleftrightarrow>
     calcular_estatisticas_historicas (get_historico_para_ia d (agora amb) u 6) = Inl e"
proof (cases "calcular_estatisticas_historicas (get_historico_para_ia d (agora amb) u 6)")
  case (Inl x)
  then show ?thesis by (simp add: gerar_previsao_def Let_def)
next
  case (Inr est)
  obtain m where "gerar_mensagem_insight
      (calcular_indice_risco d (agora amb) u (projetar_gasto_mes d (agora amb) u est) est)
      (projetar_gasto_mes d (agora amb) u est) est = Inr m"
    using mensagem_insight_total[OF indice_risco_range] by blast
  with Inr show ?thesis by (simp add: gerar_previsao_def Let_def)
qed


text \<open>
  Claim C7, for a user with no stored prediction and outflows in February and in
  March 2025, on 4 April 2025: the claim promises that fetching the latest
  prediction and the refresh action each generate, persist and return a
  prediction; both raise \<^verbatim>\<open>TypeError\<close> (from line 122) and persist nothing.
\<close>

theorem C7_generation_raises:
  "find_mais_recente_por_usuario db_dois_meses ''u1'' = None \<and>
   map snd (agrupar (get_historico_para_ia db_dois_meses quatro_de_abril ''u1'' 6) []) =
     [100, 200] \<and>
   get_ultima_previsao db_dois_meses ambiente_abril ''u1'' = Inl TypeError \<and>
   refresh_prediction db_dois_meses ambiente_abril ''u1'' = Inl TypeError"
  by code_simp



end
